theory Spec2Isabelle
  imports Main
begin

section \<open>The release-preparation tool \<^verbatim>\<open>tools/prepare_release.py\<close>\<close>

text \<open>
  The script is a sequence of steps, each a Python function without arguments that
  prints to the console, looks at (or changes) files below the working directory and
  returns a boolean. The embedding threads a \<open>world\<close> (the file system and
  the console output so far) through every function: a step is a function
  \<open>world \<Rightarrow> bool \<times> world\<close>.

  What the script takes from Python's library and from the operating system is a
  parameter of the model (the record \<open>env\<close>): the shell that runs an external
  command, \<^verbatim>\<open>json.load\<close>, \<^verbatim>\<open>json.dump\<close> and \<^verbatim>\<open>str.strip\<close>.

  Assumptions of the model, all about the platform and none about the script:
  the shell can be spawned and its output decodes as text (so that
  \<^verbatim>\<open>subprocess.run\<close> either returns or raises \<^verbatim>\<open>CalledProcessError\<close>),
  \<^verbatim>\<open>print\<close> and \<^verbatim>\<open>Path.exists\<close> do not raise, a write that could be
  opened completes, there are no symbolic links, and nothing else changes the files
  while the script runs.
\<close>

subsection \<open>Files\<close>

type_synonym path = string

text \<open>
  A path names a regular file (with the outcome of opening it for reading and for
  writing, and its bytes), a directory (with the size \<^verbatim>\<open>stat\<close> reports for it),
  or nothing.
\<close>

datatype node = File bool bool string | Dir nat

type_synonym filesystem = "path \<Rightarrow> node option"

text \<open>\<^verbatim>\<open>Path(p).exists()\<close>\<close>

definition path_exists :: "filesystem \<Rightarrow> path \<Rightarrow> bool" where
  "path_exists f p = (f p \<noteq> None)"

text \<open>\<^verbatim>\<open>Path(p).stat().st_size\<close> of a path that exists\<close>

fun st_size :: "node \<Rightarrow> nat" where
  "st_size (File rd wr bytes) = length bytes"
| "st_size (Dir n) = n"

text \<open>\<^verbatim>\<open>Path(a) / b\<close>\<close>

definition path_join :: "path \<Rightarrow> path \<Rightarrow> path" where
  "path_join a b = a @ ''/'' @ b"

subsection \<open>JSON documents\<close>

typedecl py_float

text \<open>
  The values \<^verbatim>\<open>json.load\<close> returns. A Python \<^verbatim>\<open>dict\<close> keeps its keys in
  insertion order: an association list. Floats are never computed with and stay
  uninterpreted.
\<close>

datatype json =
    JNull
  | JBool bool
  | JInt int
  | JFloat py_float
  | JStr string
  | JArr "json list"
  | JObj "(string \<times> json) list"

text \<open>\<^verbatim>\<open>d[k] = v\<close> on a dict: an existing key keeps its place, a new one goes last.\<close>

fun dict_setitem :: "(string \<times> json) list \<Rightarrow> string \<Rightarrow> json \<Rightarrow> (string \<times> json) list" where
  "dict_setitem [] k v = [(k, v)]"
| "dict_setitem ((k', v') # kvs) k v =
     (if k' = k then (k, v) # kvs else (k', v') # dict_setitem kvs k v)"

text \<open>The exceptions that \<^verbatim>\<open>update_version\<close> catches.\<close>

datatype exc =
    FileNotFoundError
  | IsADirectoryError
  | PermissionError
  | JSONDecodeError
  | TypeError

text \<open>
  \<^verbatim>\<open>library_config["version"] = version\<close>: item assignment with a string key
  works on a dict only; on a list, a string, a number, a boolean or \<^verbatim>\<open>None\<close> it
  raises \<^verbatim>\<open>TypeError\<close>.
\<close>

fun setitem :: "json \<Rightarrow> string \<Rightarrow> json \<Rightarrow> exc + json" where
  "setitem (JObj kvs) k v = Inr (JObj (dict_setitem kvs k v))"
| "setitem j k v = Inl TypeError"

subsection \<open>External commands and library functions\<close>

text \<open>What \<^verbatim>\<open>subprocess.run(..., capture_output=True, text=True)\<close> collects.\<close>

record completed =
  returncode :: int
  stdout :: string
  stderr :: string

text \<open>
  \<open>shell cmd f\<close> runs \<open>cmd\<close> through the shell on the files \<open>f\<close>: what the
  process returned, and the files it left. \<open>json_load\<close> decodes and parses the bytes of
  a file (\<open>None\<close>: it raised); \<open>json_dump\<close> is the text
  \<^verbatim>\<open>json.dump(obj, f, indent=4)\<close> writes; \<open>str_strip\<close> is \<^verbatim>\<open>str.strip()\<close>.
\<close>

record env =
  shell :: "string \<Rightarrow> filesystem \<Rightarrow> completed \<times> filesystem"
  json_load :: "string \<Rightarrow> json option"
  json_dump :: "json \<Rightarrow> string"
  str_strip :: "string \<Rightarrow> string"

subsection \<open>The console\<close>

text \<open>
  One constructor for each \<^verbatim>\<open>print\<close> call of the script, with the values its
  f-string formats; the fixed text of the call (and its emoji) is in the comment.
\<close>

datatype msg =
    Running string                \<comment> \<open>\<^verbatim>\<open>"(tool) {description or cmd}"\<close>\<close>
  | CommandOutput string          \<comment> \<open>\<^verbatim>\<open>"   (ok) {result.stdout.strip()}"\<close>\<close>
  | CommandStderr string          \<comment> \<open>\<^verbatim>\<open>"   (x) {e.stderr.strip()}"\<close>\<close>
  | CommandError string int       \<comment> \<open>\<^verbatim>\<open>"   (x) {str(e)}"\<close>, \<open>e\<close> the \<^verbatim>\<open>CalledProcessError\<close> of a command and its exit status\<close>
  | ValidatingStructure           \<comment> \<open>\<^verbatim>\<open>"Validating package structure..."\<close>\<close>
  | MissingRequiredFiles          \<comment> \<open>\<^verbatim>\<open>"(x) Missing required files:"\<close>\<close>
  | MissingFile path              \<comment> \<open>\<^verbatim>\<open>"   - {file}"\<close>\<close>
  | AllRequiredPresent            \<comment> \<open>\<^verbatim>\<open>"(ok) All required files present"\<close>\<close>
  | EmbeddingAssets               \<comment> \<open>\<^verbatim>\<open>"Embedding web assets..."\<close>\<close>
  | ValidatingAssets              \<comment> \<open>\<^verbatim>\<open>"Validating generated assets..."\<close>\<close>
  | MissingHeader                 \<comment> \<open>\<^verbatim>\<open>"(x) Missing web_assets.h"\<close>\<close>
  | MissingImpl                   \<comment> \<open>\<^verbatim>\<open>"(x) Missing web_assets.cpp"\<close>\<close>
  | HeaderTooSmall nat            \<comment> \<open>\<^verbatim>\<open>"(x) web_assets.h too small ({header_size} bytes)"\<close>\<close>
  | ImplTooSmall nat              \<comment> \<open>\<^verbatim>\<open>"(x) web_assets.cpp too small ({impl_size} bytes)"\<close>\<close>
  | AssetsValidated nat           \<comment> \<open>\<^verbatim>\<open>"(ok) Generated assets validated ({header_size + impl_size} bytes total)"\<close>\<close>
  | UpdatingVersion string        \<comment> \<open>\<^verbatim>\<open>"Updating version to {version}..."\<close>\<close>
  | VersionUpdated string         \<comment> \<open>\<^verbatim>\<open>"(ok) Version updated to {version}"\<close>\<close>
  | VersionUpdateFailed exc       \<comment> \<open>\<^verbatim>\<open>"(x) Failed to update version: {e}"\<close>\<close>
  | CheckingReleaseNotes          \<comment> \<open>\<^verbatim>\<open>"Checking release notes..."\<close>\<close>
  | ReleaseNotesExist             \<comment> \<open>\<^verbatim>\<open>"(ok) Release notes already exist, skipping generation"\<close>\<close>
  | NoReleaseNotes                \<comment> \<open>\<^verbatim>\<open>"(!) No RELEASE_NOTES.md found"\<close>\<close>
  | PleaseCreateNotes             \<comment> \<open>\<^verbatim>\<open>"   Please create release notes manually before running prepare_release.py"\<close>\<close>
  | NotesRationale                \<comment> \<open>\<^verbatim>\<open>"   This ensures you can craft proper release notes for your specific version"\<close>\<close>
  | CleaningUp                    \<comment> \<open>\<^verbatim>\<open>"Cleaning up temporary files..."\<close>\<close>
  | Banner                        \<comment> \<open>\<^verbatim>\<open>"Flexifi Release Preparation"\<close>\<close>
  | Rule                          \<comment> \<open>\<^verbatim>\<open>"=" * 50\<close>, also after a blank line\<close>
  | StepStart string              \<comment> \<open>\<^verbatim>\<open>"\n{step_name}..."\<close>\<close>
  | StepFailed string             \<comment> \<open>\<^verbatim>\<open>"(x) {step_name} failed"\<close>\<close>
  | StepCompleted string          \<comment> \<open>\<^verbatim>\<open>"(ok) {step_name} completed"\<close>\<close>
  | PreparationFailed             \<comment> \<open>\<^verbatim>\<open>"(x) Release preparation failed!"\<close>\<close>
  | FailedSteps                   \<comment> \<open>\<^verbatim>\<open>"Failed steps:"\<close>\<close>
  | FailedStep string             \<comment> \<open>\<^verbatim>\<open>"   - {step}"\<close>\<close>
  | PreparationCompleted          \<comment> \<open>\<^verbatim>\<open>"(ok) Release preparation completed successfully!"\<close>\<close>
  | ReadyForPublication           \<comment> \<open>\<^verbatim>\<open>"\nReady for package publication:"\<close>\<close>
  | Instruction nat               \<comment> \<open>the four numbered lines of manual instructions\<close>

record world =
  fs :: filesystem
  out :: "msg list"

definition print :: "msg \<Rightarrow> world \<Rightarrow> world" where
  "print m w = w\<lparr>out := out w @ [m]\<rparr>"

text \<open>\<^verbatim>\<open>for x in xs: print(...)\<close>\<close>

primrec print_each :: "msg list \<Rightarrow> world \<Rightarrow> world" where
  "print_each [] w = w"
| "print_each (m # ms) w = print_each ms (print m w)"

subsection \<open>\<^verbatim>\<open>run_command\<close>\<close>

definition run_command :: "env \<Rightarrow> string \<Rightarrow> string \<Rightarrow> world \<Rightarrow> bool \<times> world" where
  "run_command e cmd description w =
     (let w1 = print (Running (if description \<noteq> [] then description else cmd)) w;
          (result, f') = shell e cmd (fs w1);
          w2 = w1\<lparr>fs := f'\<rparr>
      in if returncode result = 0
         then (True, if stdout result \<noteq> []
                     then print (CommandOutput (str_strip e (stdout result))) w2
                     else w2)
         else (False, print (if stderr result \<noteq> []
                             then CommandStderr (str_strip e (stderr result))
                             else CommandError cmd (returncode result)) w2))"

subsection \<open>\<^verbatim>\<open>validate_structure\<close>\<close>

definition required_files :: "path list" where
  "required_files =
     [''library.json'',
      ''src/Flexifi.h'',
      ''src/Flexifi.cpp'',
      ''src/TemplateManager.h'',
      ''src/TemplateManager.cpp'',
      ''src/StorageManager.h'',
      ''src/StorageManager.cpp'',
      ''src/PortalWebServer.h'',
      ''src/PortalWebServer.cpp'',
      ''src/FlexifiParameter.h'',
      ''src/FlexifiParameter.cpp'',
      ''README.md'',
      ''examples/basic_usage/basic_usage.ino'',
      ''examples/advanced_callbacks/advanced_callbacks.ino'',
      ''examples/state_machine/state_machine.ino'']"

text \<open>The loop that fills \<^verbatim>\<open>missing_files\<close>.\<close>

primrec collect_missing :: "filesystem \<Rightarrow> path list \<Rightarrow> path list \<Rightarrow> path list" where
  "collect_missing f [] missing_files = missing_files"
| "collect_missing f (file # rest) missing_files =
     (if \<not> path_exists f file
      then collect_missing f rest (missing_files @ [file])
      else collect_missing f rest missing_files)"

definition validate_structure :: "world \<Rightarrow> bool \<times> world" where
  "validate_structure w =
     (let w1 = print ValidatingStructure w;
          missing_files = collect_missing (fs w1) required_files []
      in if missing_files \<noteq> []
         then (False, print_each (map MissingFile missing_files) (print MissingRequiredFiles w1))
         else (True, print AllRequiredPresent w1))"

subsection \<open>\<^verbatim>\<open>embed_assets\<close>\<close>

definition embed_assets :: "env \<Rightarrow> world \<Rightarrow> bool \<times> world" where
  "embed_assets e w =
     run_command e ''python3 tools/embed_assets.py'' ''Embedding web assets''
       (print EmbeddingAssets w)"

subsection \<open>\<^verbatim>\<open>validate_generated_assets\<close>\<close>

definition validate_generated_assets :: "world \<Rightarrow> bool \<times> world" where
  "validate_generated_assets w =
     (let w1 = print ValidatingAssets w;
          assets_dir = ''src/generated'';
          header_file = path_join assets_dir ''web_assets.h'';
          impl_file = path_join assets_dir ''web_assets.cpp''
      in case fs w1 header_file of
           None \<Rightarrow> (False, print MissingHeader w1)
         | Some header_node \<Rightarrow>
            (case fs w1 impl_file of
               None \<Rightarrow> (False, print MissingImpl w1)
             | Some impl_node \<Rightarrow>
                (let header_size = st_size header_node;
                     impl_size = st_size impl_node
                 in if header_size < 1000 then (False, print (HeaderTooSmall header_size) w1)
                    else if impl_size < 500 then (False, print (ImplTooSmall impl_size) w1)
                    else (True, print (AssetsValidated (header_size + impl_size)) w1))))"

subsection \<open>\<^verbatim>\<open>update_version\<close>\<close>

text \<open>
  \<open>version\<close> is \<^verbatim>\<open>None\<close> or a string; \<^verbatim>\<open>not version\<close> holds for \<^verbatim>\<open>None\<close> and
  for the empty string. Every exception below the \<^verbatim>\<open>try\<close> is caught: the
  function prints it and returns \<^verbatim>\<open>False\<close>. The file is opened for writing only
  after the assignment, so a failure before that leaves it as it was.
\<close>

definition update_version :: "env \<Rightarrow> string option \<Rightarrow> world \<Rightarrow> bool \<times> world" where
  "update_version e version w =
     (case version of
        None \<Rightarrow> (True, w)
      | Some v \<Rightarrow>
         if v = [] then (True, w)
         else
          (let w1 = print (UpdatingVersion v) w;
               failed = (\<lambda>x. (False, print (VersionUpdateFailed x) w1))
           in case fs w1 ''library.json'' of
                None \<Rightarrow> failed FileNotFoundError
              | Some (Dir n) \<Rightarrow> failed IsADirectoryError
              | Some (File rd wr bytes) \<Rightarrow>
                 if \<not> rd then failed PermissionError
                 else
                  (case json_load e bytes of
                     None \<Rightarrow> failed JSONDecodeError
                   | Some library_config \<Rightarrow>
                      (case setitem library_config ''version'' (JStr v) of
                         Inl x \<Rightarrow> failed x
                       | Inr library_config' \<Rightarrow>
                          if \<not> wr then failed PermissionError
                          else (True,
                                print (VersionUpdated v)
                                  (w1\<lparr>fs := (fs w1)(''library.json'' \<mapsto>
                                          File rd wr (json_dump e library_config'))\<rparr>))))))"

subsection \<open>\<^verbatim>\<open>create_release_notes\<close>\<close>

definition create_release_notes :: "world \<Rightarrow> bool \<times> world" where
  "create_release_notes w =
     (let w1 = print CheckingReleaseNotes w
      in if path_exists (fs w1) ''RELEASE_NOTES.md''
         then (True, print ReleaseNotesExist w1)
         else (False, print NotesRationale (print PleaseCreateNotes (print NoReleaseNotes w1))))"

subsection \<open>\<^verbatim>\<open>cleanup_generated_files\<close>\<close>

definition temp_files :: "string list" where
  "temp_files = [''__pycache__'', ''*.pyc'', ''.DS_Store'']"

text \<open>The loop over the patterns; the result of \<^verbatim>\<open>run_command\<close> is dropped.\<close>

primrec cleanup_loop :: "env \<Rightarrow> string list \<Rightarrow> world \<Rightarrow> world" where
  "cleanup_loop e [] w = w"
| "cleanup_loop e (pattern # rest) w =
     cleanup_loop e rest
       (snd (run_command e
               (''find . -name '' @ [CHR 0x27] @ pattern @ [CHR 0x27] @ '' -delete'')
               (''Removing '' @ pattern) w))"

definition cleanup_generated_files :: "env \<Rightarrow> world \<Rightarrow> bool \<times> world" where
  "cleanup_generated_files e w = (True, cleanup_loop e temp_files (print CleaningUp w))"

subsection \<open>\<^verbatim>\<open>main\<close>\<close>

text \<open>The parsing of \<^verbatim>\<open>sys.argv\<close>.\<close>

definition parse_version :: "string list \<Rightarrow> string option" where
  "parse_version argv =
     (if length argv > 1
      then (if argv ! 1 = ''--version'' \<and> length argv > 2 then Some (argv ! 2) else None)
      else None)"

type_synonym step = "string \<times> (world \<Rightarrow> bool \<times> world)"

definition steps :: "env \<Rightarrow> string option \<Rightarrow> step list" where
  "steps e version =
     [(''Validating package structure'', validate_structure),
      (''Embedding web assets'', embed_assets e),
      (''Validating generated assets'', validate_generated_assets),
      (''Updating version'', update_version e version),
      (''Creating release notes'', create_release_notes),
      (''Cleaning up'', cleanup_generated_files e)]"

text \<open>The loop over the steps, with \<^verbatim>\<open>failed_steps\<close> as its accumulator.\<close>

fun run_steps :: "step list \<Rightarrow> string list \<Rightarrow> world \<Rightarrow> string list \<times> world" where
  "run_steps [] failed_steps w = (failed_steps, w)"
| "run_steps ((step_name, step_func) # rest) failed_steps w =
     (let (ok, w1) = step_func (print (StepStart step_name) w)
      in if \<not> ok
         then run_steps rest (failed_steps @ [step_name]) (print (StepFailed step_name) w1)
         else run_steps rest failed_steps (print (StepCompleted step_name) w1))"

text \<open>
  What \<^verbatim>\<open>main\<close> does once the list of steps is built. The result is the exit
  status of the process: 1 from \<^verbatim>\<open>sys.exit(1)\<close>, 0 when \<^verbatim>\<open>main\<close> returns.
\<close>

definition run_pipeline :: "step list \<Rightarrow> world \<Rightarrow> nat \<times> world" where
  "run_pipeline ss w =
     (let (failed_steps, w1) = run_steps ss [] w;
          w2 = print Rule w1
      in if failed_steps \<noteq> []
         then (1, print_each (map FailedStep failed_steps)
                    (print FailedSteps (print PreparationFailed w2)))
         else (0, print_each (map Instruction [1, 2, 3, 4])
                    (print ReadyForPublication (print PreparationCompleted w2))))"

definition main :: "env \<Rightarrow> string list \<Rightarrow> world \<Rightarrow> nat \<times> world" where
  "main e argv w =
     (let w1 = print Rule (print Banner w);
          version = parse_version argv
      in run_pipeline (steps e version) w1)"

subsection \<open>Reading a run\<close>

text \<open>
  The values the step functions return when the loop of \<^verbatim>\<open>main\<close> calls them one
  after the other from the world \<open>w\<close>: the result of the first step, then the result of
  the second in the world the first one left, and so on.
\<close>

fun step_results :: "step list \<Rightarrow> world \<Rightarrow> bool list" where
  "step_results [] w = []"
| "step_results ((step_name, step_func) # rest) w =
     (let (ok, w1) = step_func (print (StepStart step_name) w)
      in ok # step_results rest
                (print (if ok then StepCompleted step_name else StepFailed step_name) w1))"

text \<open>The names of the steps whose result was \<^verbatim>\<open>False\<close>.\<close>

definition failures :: "string list \<Rightarrow> bool list \<Rightarrow> string list" where
  "failures names rs = map fst (filter (\<lambda>(n, ok). \<not> ok) (zip names rs))"

text \<open>
  The two lines the loop prints around a step: that it is attempted, and its outcome.
\<close>

definition step_lines :: "string list \<Rightarrow> bool list \<Rightarrow> msg list" where
  "step_lines names rs =
     concat (map (\<lambda>(n, ok). [StepStart n, if ok then StepCompleted n else StepFailed n])
               (zip names rs))"

text \<open>The lines that only \<^verbatim>\<open>main\<close> prints, and among them those of the loop.\<close>

definition main_line :: "msg \<Rightarrow> bool" where
  "main_line m =
     (case m of
        Banner \<Rightarrow> True | Rule \<Rightarrow> True
      | StepStart n \<Rightarrow> True | StepFailed n \<Rightarrow> True | StepCompleted n \<Rightarrow> True
      | PreparationFailed \<Rightarrow> True | FailedSteps \<Rightarrow> True | FailedStep n \<Rightarrow> True
      | PreparationCompleted \<Rightarrow> True | ReadyForPublication \<Rightarrow> True | Instruction k \<Rightarrow> True
      | _ \<Rightarrow> False)"

definition step_line :: "msg \<Rightarrow> bool" where
  "step_line m =
     (case m of StepStart n \<Rightarrow> True | StepFailed n \<Rightarrow> True | StepCompleted n \<Rightarrow> True
      | _ \<Rightarrow> False)"

definition failed_step_line :: "msg \<Rightarrow> bool" where
  "failed_step_line m = (case m of FailedStep n \<Rightarrow> True | _ \<Rightarrow> False)"

text \<open>What was printed between the world \<open>w\<close> and the later world \<open>w'\<close>.\<close>

definition printed :: "world \<Rightarrow> world \<Rightarrow> msg list" where
  "printed w w' = drop (length (out w)) (out w')"

text \<open>A step that prints none of the lines of \<^verbatim>\<open>main\<close>.\<close>

definition quiet :: "(world \<Rightarrow> bool \<times> world) \<Rightarrow> bool" where
  "quiet f = (\<forall>w. \<exists>ms. out (snd (f w)) = out w @ ms \<and> filter main_line ms = [])"

text \<open>The document a reader of the manifest gets.\<close>

definition read_manifest :: "env \<Rightarrow> filesystem \<Rightarrow> json option" where
  "read_manifest e f =
     (case f ''library.json'' of
        Some (File rd wr bytes) \<Rightarrow> if rd then json_load e bytes else None
      | _ \<Rightarrow> None)"

subsection \<open>Sample environments\<close>

text \<open>
  The manifest of the round-trip example as it may lie on disk, and as
  \<^verbatim>\<open>json.dump(..., indent=4)\<close> writes it with the new version.
\<close>

definition manifest_1_0_0 :: string where
  \<open>manifest_1_0_0 = ''{"version": "1.0.0", "other": "x"}''\<close>

definition manifest_1_2_0 :: string where
  \<open>manifest_1_2_0 = ''{\<newline>    "version": "1.2.0",\<newline>    "other": "x"\<newline>}''\<close>

text \<open>\<^verbatim>\<open>json.load\<close> and \<^verbatim>\<open>json.dump\<close> on these two texts and their documents.\<close>

definition sample_load :: "string \<Rightarrow> json option" where
  "sample_load s =
     (if s = manifest_1_0_0
      then Some (JObj [(''version'', JStr ''1.0.0''), (''other'', JStr ''x'')])
      else if s = manifest_1_2_0
      then Some (JObj [(''version'', JStr ''1.2.0''), (''other'', JStr ''x'')])
      else None)"

definition sample_dump :: "json \<Rightarrow> string" where
  "sample_dump j =
     (if j = JObj [(''version'', JStr ''1.2.0''), (''other'', JStr ''x'')]
      then manifest_1_2_0 else [])"


text \<open>A shell in which every command exits with the given status and prints nothing.\<close>

definition silent_shell :: "int \<Rightarrow> string \<Rightarrow> filesystem \<Rightarrow> completed \<times> filesystem" where
  "silent_shell status cmd f = (\<lparr>returncode = status, stdout = [], stderr = []\<rparr>, f)"

text \<open>A shell in which every command exits with status 2 and a message on stderr.\<close>

definition complaining_shell :: "string \<Rightarrow> filesystem \<Rightarrow> completed \<times> filesystem" where
  "complaining_shell cmd f = (\<lparr>returncode = 2, stdout = [], stderr = ''no such tool''\<rparr>, f)"

definition sample_env :: "(string \<Rightarrow> filesystem \<Rightarrow> completed \<times> filesystem) \<Rightarrow> env" where
  "sample_env sh =
     \<lparr>shell = sh, json_load = sample_load, json_dump = sample_dump, str_strip = (\<lambda>s. s)\<rparr>"

text \<open>
  A package that is ready for release (the generated files exactly at their
  thresholds), and an empty directory.
\<close>

definition ready_files :: filesystem where
  "ready_files =
     (\<lambda>p. if p = ''library.json'' then Some (File True True manifest_1_0_0)
          else if p = ''src/generated/web_assets.h'' then Some (File True True (replicate 1000 CHR ''h''))
          else if p = ''src/generated/web_assets.cpp'' then Some (File True True (replicate 500 CHR ''c''))
          else if p = ''RELEASE_NOTES.md'' then Some (File True True ''notes'')
          else if p \<in> set required_files then Some (File True True ''text'')
          else None)"

definition ready_world :: world where
  "ready_world = \<lparr>fs = ready_files, out = []\<rparr>"

definition empty_world :: world where
  "empty_world = \<lparr>fs = (\<lambda>p. None), out = []\<rparr>"


text \<open>A directory with only the two generated files, of the given sizes.\<close>

definition assets_world :: "nat \<Rightarrow> nat \<Rightarrow> world" where
  "assets_world h i =
     \<lparr>fs = (\<lambda>p. if p = ''src/generated/web_assets.h''
               then Some (File True True (replicate h CHR ''h''))
               else if p = ''src/generated/web_assets.cpp''
               then Some (File True True (replicate i CHR ''c''))
               else None),
      out = []\<rparr>"

text \<open>A package from which one source file and the readme are missing.\<close>

definition partial_world :: world where
  "partial_world =
     \<lparr>fs = (\<lambda>p. if p = ''src/Flexifi.cpp'' \<or> p = ''README.md'' then None
               else if p \<in> set required_files then Some (File True True ''text'')
               else None),
      out = []\<rparr>"


section \<open>Lemmas\<close>

subsection \<open>Console and files under printing\<close>

lemma out_print [simp]: "out (print m w) = out w @ [m]"
  by (simp add: print_def)

lemma fs_print [simp]: "fs (print m w) = fs w"
  by (simp add: print_def)

lemma out_print_each [simp]: "out (print_each ms w) = out w @ ms"
  by (induction ms arbitrary: w) simp_all

lemma fs_print_each [simp]: "fs (print_each ms w) = fs w"
  by (induction ms arbitrary: w) simp_all

lemma printed_append [simp]: "out w' = out w @ ms \<Longrightarrow> printed w w' = ms"
  by (simp add: printed_def)

lemma collect_missing_filter:
  "collect_missing f ps acc = acc @ filter (\<lambda>p. \<not> path_exists f p) ps"
  by (induction ps arbitrary: acc) simp_all

subsection \<open>What each step prints\<close>

lemma out_run_command:
  "\<exists>ms. out (snd (run_command e cmd d w)) = out w @ ms \<and> filter main_line ms = []"
  by (simp add: run_command_def Let_def split_beta main_line_def)

lemma quiet_validate_structure: "quiet validate_structure"
  by (simp add: quiet_def validate_structure_def Let_def main_line_def filter_empty_conv)

lemma quiet_embed_assets: "quiet (embed_assets e)"
  unfolding quiet_def
proof
  fix w
  obtain ms where "out (snd (run_command e ''python3 tools/embed_assets.py'' ''Embedding web assets''
       (print EmbeddingAssets w))) = out (print EmbeddingAssets w) @ ms" "filter main_line ms = []"
    using out_run_command by blast
  then have "out (snd (embed_assets e w)) = out w @ (EmbeddingAssets # ms) \<and> filter main_line (EmbeddingAssets # ms) = []"
    by (simp add: embed_assets_def main_line_def)
  then show "\<exists>ms. out (snd (embed_assets e w)) = out w @ ms \<and> filter main_line ms = []"
    by blast
qed

lemma quiet_validate_generated_assets: "quiet validate_generated_assets"
  by (simp add: quiet_def validate_generated_assets_def Let_def main_line_def split: option.splits)

lemma quiet_update_version: "quiet (update_version e v)"
  by (simp add: quiet_def update_version_def Let_def main_line_def split: option.splits node.splits sum.splits)

lemma quiet_create_release_notes: "quiet create_release_notes"
  by (simp add: quiet_def create_release_notes_def Let_def main_line_def)

lemma out_cleanup_loop:
  "\<exists>ms. out (cleanup_loop e ps w) = out w @ ms \<and> filter main_line ms = []"
proof (induction ps arbitrary: w)
  case Nil
  then show ?case by simp
next
  case (Cons p ps)
  let ?w1 = "snd (run_command e (''find . -name '' @ [CHR 0x27] @ p @ [CHR 0x27] @ '' -delete'')
               (''Removing '' @ p) w)"
  obtain ms1 where 1: "out ?w1 = out w @ ms1" "filter main_line ms1 = []"
    using out_run_command by blast
  obtain ms2 where 2: "out (cleanup_loop e ps ?w1) = out ?w1 @ ms2" "filter main_line ms2 = []"
    using Cons.IH by blast
  from 1 2 have "out (cleanup_loop e (p # ps) w) = out w @ (ms1 @ ms2) \<and> filter main_line (ms1 @ ms2) = []"
    by simp
  then show ?case by blast
qed

lemma quiet_cleanup_generated_files: "quiet (cleanup_generated_files e)"
  unfolding quiet_def
proof
  fix w
  obtain ms where "out (cleanup_loop e temp_files (print CleaningUp w)) = out (print CleaningUp w) @ ms"
     "filter main_line ms = []"
    using out_cleanup_loop by blast
  then have "out (snd (cleanup_generated_files e w)) = out w @ (CleaningUp # ms) \<and> filter main_line (CleaningUp # ms) = []"
    by (simp add: cleanup_generated_files_def main_line_def)
  then show "\<exists>ms. out (snd (cleanup_generated_files e w)) = out w @ ms \<and> filter main_line ms = []"
    by blast
qed

lemma quiet_steps: "(n, f) \<in> set (steps e v) \<Longrightarrow> quiet f"
  by (auto simp: steps_def quiet_validate_structure quiet_embed_assets
      quiet_validate_generated_assets quiet_update_version quiet_create_release_notes
      quiet_cleanup_generated_files)

subsection \<open>The loop over the steps\<close>

lemma length_step_results [simp]: "length (step_results ss w) = length ss"
  by (induction ss w rule: step_results.induct) (simp_all add: split_beta Let_def)

lemma failures_Cons [simp]:
  "failures (n # ns) (ok # rs) = (if ok then failures ns rs else n # failures ns rs)"
  by (simp add: failures_def)

lemma failures_Nil [simp]: "failures [] rs = []"
  by (simp add: failures_def)

lemma step_lines_Cons [simp]:
  "step_lines (n # ns) (ok # rs) =
     StepStart n # (if ok then StepCompleted n else StepFailed n) # step_lines ns rs"
  by (simp add: step_lines_def)

lemma step_lines_Nil [simp]: "step_lines [] rs = []"
  by (simp add: step_lines_def)

lemma fst_run_steps:
  "fst (run_steps ss failed w) = failed @ failures (map fst ss) (step_results ss w)"
proof (induction ss arbitrary: failed w)
  case Nil
  then show ?case by simp
next
  case (Cons s ss)
  obtain n f where s: "s = (n, f)" by (cases s)
  show ?case
    by (cases "fst (f (print (StepStart n) w))") (simp_all add: s split_beta Cons.IH)
qed

lemma out_run_steps:
  "(\<And>n f. (n, f) \<in> set ss \<Longrightarrow> quiet f) \<Longrightarrow>
   \<exists>ms. out (snd (run_steps ss failed w)) = out w @ ms
      \<and> filter main_line ms = step_lines (map fst ss) (step_results ss w)"
proof (induction ss arbitrary: failed w)
  case Nil
  then show ?case by simp
next
  case (Cons s ss)
  obtain n f where s: "s = (n, f)" by (cases s)
  let ?w0 = "print (StepStart n) w"
  let ?ok = "fst (f ?w0)"
  let ?w1 = "snd (f ?w0)"
  let ?w2 = "print (if ?ok then StepCompleted n else StepFailed n) ?w1"
  let ?failed = "if ?ok then failed else failed @ [n]"
  have "quiet f" using Cons.prems [of n f] s by simp
  then obtain ms1 where 1: "out ?w1 = out ?w0 @ ms1" "filter main_line ms1 = []"
    unfolding quiet_def by blast
  have "\<And>n f. (n, f) \<in> set ss \<Longrightarrow> quiet f" using Cons.prems by auto
  then have "\<exists>ms. out (snd (run_steps ss ?failed ?w2)) = out ?w2 @ ms
      \<and> filter main_line ms = step_lines (map fst ss) (step_results ss ?w2)"
    by (rule Cons.IH)
  then obtain ms2 where 2: "out (snd (run_steps ss ?failed ?w2)) = out ?w2 @ ms2"
      "filter main_line ms2 = step_lines (map fst ss) (step_results ss ?w2)"
    by blast
  have run: "run_steps (s # ss) failed w = run_steps ss ?failed ?w2"
    by (simp add: s split_beta Let_def)
  have res: "step_results (s # ss) w = ?ok # step_results ss ?w2"
    by (simp add: s split_beta Let_def)
  let ?ms = "StepStart n # ms1 @ (if ?ok then StepCompleted n else StepFailed n) # ms2"
  have "out (snd (run_steps (s # ss) failed w)) = out w @ ?ms"
    using 1 2 by (simp add: run)
  moreover have "filter main_line ?ms = step_lines (map fst (s # ss)) (step_results (s # ss) w)"
    unfolding res using 1 2 by (simp add: s main_line_def)
  ultimately show ?case by blast
qed

subsection \<open>The output of \<^verbatim>\<open>main\<close>\<close>

lemma step_line_main_line: "step_line m \<Longrightarrow> main_line m"
  by (cases m) (simp_all add: step_line_def main_line_def)

lemma failed_step_line_main_line: "failed_step_line m \<Longrightarrow> main_line m"
  by (cases m) (simp_all add: failed_step_line_def main_line_def)

lemma filter_step_line_main: "filter step_line (filter main_line ms) = filter step_line ms"
  by (induction ms) (auto dest: step_line_main_line)

lemma filter_failed_step_line_main:
  "filter failed_step_line (filter main_line ms) = filter failed_step_line ms"
  by (induction ms) (auto dest: failed_step_line_main_line)

lemma step_lines_induct_aux:
  "filter step_line (step_lines ns rs) = step_lines ns rs \<and>
   filter failed_step_line (step_lines ns rs) = []"
proof (induction ns arbitrary: rs)
  case Nil
  then show ?case by simp
next
  case (Cons n ns)
  then show ?case
    by (cases rs) (simp_all add: step_line_def failed_step_line_def step_lines_def)
qed

lemma failures_empty_iff:
  "length ns = length rs \<Longrightarrow> (failures ns rs = []) = list_all id rs"
proof (induction ns arbitrary: rs)
  case Nil
  then show ?case by simp
next
  case (Cons n ns)
  then show ?case by (cases rs) simp_all
qed

lemma main_output:
  fixes e argv w
  defines "ss \<equiv> steps e (parse_version argv)"
  defines "rs \<equiv> step_results ss (print Rule (print Banner w))"
  defines "failed \<equiv> failures (map fst ss) rs"
  shows "\<exists>ms. out (snd (main e argv w)) =
            out w @ [Banner, Rule] @ ms @ [Rule] @
              (if failed \<noteq> [] then [PreparationFailed, FailedSteps] @ map FailedStep failed
               else [PreparationCompleted, ReadyForPublication] @ map Instruction [1, 2, 3, 4])
          \<and> filter main_line ms = step_lines (map fst ss) rs"
    and "fst (main e argv w) = (if failed \<noteq> [] then 1 else 0)"
proof -
  let ?w1 = "print Rule (print Banner w)"
  have "\<And>n f. (n, f) \<in> set ss \<Longrightarrow> quiet f"
    unfolding ss_def by (rule quiet_steps)
  then obtain ms where ms: "out (snd (run_steps ss [] ?w1)) = out ?w1 @ ms"
      "filter main_line ms = step_lines (map fst ss) rs"
    unfolding rs_def using out_run_steps [of ss "[]" ?w1] by blast
  have fl: "fst (run_steps ss [] ?w1) = failed"
    by (simp add: fst_run_steps failed_def rs_def)
  have "out (snd (main e argv w)) =
            out w @ [Banner, Rule] @ ms @ [Rule] @
              (if failed \<noteq> [] then [PreparationFailed, FailedSteps] @ map FailedStep failed
               else [PreparationCompleted, ReadyForPublication] @ map Instruction [1, 2, 3, 4])"
    using ms(1) fl
    by (simp add: main_def run_pipeline_def Let_def split_beta ss_def [symmetric])
  with ms(2) show "\<exists>ms. out (snd (main e argv w)) =
            out w @ [Banner, Rule] @ ms @ [Rule] @
              (if failed \<noteq> [] then [PreparationFailed, FailedSteps] @ map FailedStep failed
               else [PreparationCompleted, ReadyForPublication] @ map Instruction [1, 2, 3, 4])
          \<and> filter main_line ms = step_lines (map fst ss) rs"
    by blast
  show "fst (main e argv w) = (if failed \<noteq> [] then 1 else 0)"
    using fl by (simp add: main_def run_pipeline_def Let_def split_beta ss_def [symmetric])
qed


lemma map_fst_steps:
  "map fst (steps e v) =
     [''Validating package structure'', ''Embedding web assets'',
      ''Validating generated assets'', ''Updating version'', ''Creating release notes'',
      ''Cleaning up'']"
  by (simp add: steps_def)

lemma filter_step_line_ending:
  "filter step_line (map FailedStep ns) = []" "filter step_line (map Instruction ks) = []"
  by (simp_all add: filter_empty_conv step_line_def)

lemma filter_failed_step_line_ending:
  "filter failed_step_line (map FailedStep ns) = map FailedStep ns"
  "filter failed_step_line (map Instruction ks) = []"
  by (simp_all add: filter_empty_conv filter_id_conv failed_step_line_def)


lemmas step_defs = steps_def parse_version_def validate_structure_def embed_assets_def
  run_command_def validate_generated_assets_def update_version_def create_release_notes_def
  cleanup_generated_files_def temp_files_def required_files_def path_exists_def path_join_def
  sample_env_def silent_shell_def

section \<open>The properties of the specification\<close>

text \<open>
  C1. Whatever the steps return, \<^verbatim>\<open>main\<close> calls the six steps of its list once
  each and in the order of the list: there are six results, and the lines the loop printed
  are, step by step in that order, the line that the step is attempted followed by the
  line of its outcome (completed or failed).
\<close>

theorem main_attempts_every_step:
  "let rs = step_results (steps e (parse_version argv)) (print Rule (print Banner w))
   in length rs = 6 \<and>
      filter step_line (printed w (snd (main e argv w))) =
        step_lines [''Validating package structure'', ''Embedding web assets'',
                    ''Validating generated assets'', ''Updating version'',
                    ''Creating release notes'', ''Cleaning up''] rs"
proof -
  let ?ss = "steps e (parse_version argv)"
  let ?rs = "step_results ?ss (print Rule (print Banner w))"
  let ?failed = "failures (map fst ?ss) ?rs"
  let ?ending = "if ?failed \<noteq> [] then [PreparationFailed, FailedSteps] @ map FailedStep ?failed
               else [PreparationCompleted, ReadyForPublication] @ map Instruction [1, 2, 3, 4]"
  obtain ms where ms: "out (snd (main e argv w)) = out w @ [Banner, Rule] @ ms @ [Rule] @ ?ending"
      "filter main_line ms = step_lines (map fst ?ss) ?rs"
    using main_output(1) [of e argv w] by blast
  have "filter step_line ([Banner, Rule] @ ms @ [Rule] @ ?ending) = filter step_line ms"
    by (simp add: step_line_def filter_step_line_ending)
  also have "\<dots> = filter step_line (filter main_line ms)"
    by (simp only: filter_step_line_main)
  also have "\<dots> = step_lines (map fst ?ss) ?rs"
    by (simp only: ms(2) step_lines_induct_aux)
  finally have "filter step_line (printed w (snd (main e argv w))) = step_lines (map fst ?ss) ?rs"
    using ms(1) by (simp only: printed_append)
  moreover have "length ?rs = 6"
    unfolding length_step_results by (simp add: steps_def)
  ultimately show ?thesis
    by (simp only: Let_def map_fst_steps simp_thms)
qed

text \<open>
  C1, at a run in an empty directory where every external command fails: four of the six
  steps fail, and all six are attempted.
\<close>

theorem main_attempts_every_step_witness:
  "filter step_line (printed empty_world (snd (main (sample_env (silent_shell 1)) [] empty_world))) =
     [StepStart ''Validating package structure'', StepFailed ''Validating package structure'',
      StepStart ''Embedding web assets'', StepFailed ''Embedding web assets'',
      StepStart ''Validating generated assets'', StepFailed ''Validating generated assets'',
      StepStart ''Updating version'', StepCompleted ''Updating version'',
      StepStart ''Creating release notes'', StepFailed ''Creating release notes'',
      StepStart ''Cleaning up'', StepCompleted ''Cleaning up'']"
  using main_attempts_every_step [of "sample_env (silent_shell 1)" "[]" empty_world]
  by (simp add: step_defs empty_world_def Let_def)

text \<open>
  C2. The exit status is 0 exactly when every step returned true and 1 exactly when
  some step returned false, and the names printed under "Failed steps:" are those of the
  steps that returned false, in order (none when all succeeded).
\<close>

theorem main_exit_status:
  "let ss = steps e (parse_version argv);
       rs = step_results ss (print Rule (print Banner w));
       status = fst (main e argv w)
   in (status = 0 \<longleftrightarrow> list_all id rs) \<and>
      (status = 1 \<longleftrightarrow> \<not> list_all id rs) \<and>
      filter failed_step_line (printed w (snd (main e argv w))) =
        map FailedStep (failures (map fst ss) rs)"
proof -
  let ?ss = "steps e (parse_version argv)"
  let ?rs = "step_results ?ss (print Rule (print Banner w))"
  let ?failed = "failures (map fst ?ss) ?rs"
  let ?ending = "if ?failed \<noteq> [] then [PreparationFailed, FailedSteps] @ map FailedStep ?failed
               else [PreparationCompleted, ReadyForPublication] @ map Instruction [1, 2, 3, 4]"
  obtain ms where ms: "out (snd (main e argv w)) = out w @ [Banner, Rule] @ ms @ [Rule] @ ?ending"
      "filter main_line ms = step_lines (map fst ?ss) ?rs"
    using main_output(1) [of e argv w] by blast
  have "filter failed_step_line ms = filter failed_step_line (filter main_line ms)"
    by (simp only: filter_failed_step_line_main)
  also have "\<dots> = []"
    by (simp only: ms(2) step_lines_induct_aux)
  finally have quiet_loop: "filter failed_step_line ms = []" .
  have "filter failed_step_line ([Banner, Rule] @ ms @ [Rule] @ ?ending) = map FailedStep ?failed"
    using quiet_loop by (simp add: failed_step_line_def filter_failed_step_line_ending)
  then have lines: "filter failed_step_line (printed w (snd (main e argv w))) = map FailedStep ?failed"
    using ms(1) by (simp only: printed_append)
  have empty: "(?failed = []) = list_all id ?rs"
    by (rule failures_empty_iff) simp
  have status: "fst (main e argv w) = (if ?failed \<noteq> [] then 1 else 0)"
    by (rule main_output(2))
  have "(fst (main e argv w) = 0 \<longleftrightarrow> list_all id ?rs) \<and>
        (fst (main e argv w) = 1 \<longleftrightarrow> \<not> list_all id ?rs)"
    unfolding status empty [symmetric] by simp
  with lines show ?thesis
    by (simp only: Let_def simp_thms)
qed

text \<open>
  C2, at the same run: status 1, and the four failed steps are named.
\<close>

theorem main_exit_status_witness:
  "fst (main (sample_env (silent_shell 1)) [] empty_world) = 1 \<and>
   filter failed_step_line (printed empty_world (snd (main (sample_env (silent_shell 1)) [] empty_world))) =
     [FailedStep ''Validating package structure'', FailedStep ''Embedding web assets'',
      FailedStep ''Validating generated assets'', FailedStep ''Creating release notes'']"
  using main_exit_status [of "sample_env (silent_shell 1)" "[]" empty_world]
  by (simp add: step_defs empty_world_def Let_def)




text \<open>
  C4. Without a version, \<^verbatim>\<open>update_version\<close> returns true at once: the world it
  returns is the world it was given (no file changed, nothing printed), whatever the
  manifest is, also when it is missing or unreadable.
\<close>

theorem update_version_absent: "update_version e None w = (True, w)"
  by (simp add: update_version_def)

text \<open>
  C4, with and without a manifest.
\<close>

theorem update_version_absent_witness:
  "update_version (sample_env (silent_shell 0)) None ready_world = (True, ready_world) \<and>
   update_version (sample_env (silent_shell 0)) None empty_world = (True, empty_world)"
  using update_version_absent [of "sample_env (silent_shell 0)" ready_world]
    update_version_absent [of "sample_env (silent_shell 0)" empty_world]
  by simp

text \<open>
  C5. \<^verbatim>\<open>validate_generated_assets\<close> returns true exactly when both generated files
  exist, the size of \<^verbatim>\<open>web_assets.h\<close> is at least 1000 and the size of
  \<^verbatim>\<open>web_assets.cpp\<close> at least 500. It changes no file. With the second file at its
  threshold, 999 bytes in the first fail and 1000 pass; on success the sum of the two
  sizes is printed.
\<close>

theorem validate_generated_assets_thresholds:
  "(fst (validate_generated_assets w) \<longleftrightarrow>
      (\<exists>h i. fs w ''src/generated/web_assets.h'' = Some h \<and>
             fs w ''src/generated/web_assets.cpp'' = Some i \<and>
             1000 \<le> st_size h \<and> 500 \<le> st_size i))
   \<and> fs (snd (validate_generated_assets w)) = fs w
   \<and> (\<forall>h i. fs w ''src/generated/web_assets.h'' = Some h \<and>
             fs w ''src/generated/web_assets.cpp'' = Some i \<and> 500 \<le> st_size i \<longrightarrow>
         (st_size h = 999 \<longrightarrow> \<not> fst (validate_generated_assets w)) \<and>
         (st_size h = 1000 \<longrightarrow> fst (validate_generated_assets w)) \<and>
         (fst (validate_generated_assets w) \<longrightarrow>
            printed w (snd (validate_generated_assets w)) =
              [ValidatingAssets, AssetsValidated (st_size h + st_size i)]))"
  by (auto simp: validate_generated_assets_def path_join_def Let_def split: option.splits)

text \<open>
  C5, at the boundaries 999/1000 and 499/500, and with no files at all.
\<close>

theorem validate_generated_assets_thresholds_witness:
  "\<not> fst (validate_generated_assets (assets_world 999 500)) \<and>
   fst (validate_generated_assets (assets_world 1000 500)) \<and>
   \<not> fst (validate_generated_assets (assets_world 1000 499)) \<and>
   \<not> fst (validate_generated_assets empty_world) \<and>
   printed (assets_world 1000 500) (snd (validate_generated_assets (assets_world 1000 500))) =
     [ValidatingAssets, AssetsValidated 1500]"
  using validate_generated_assets_thresholds [of "assets_world 999 500"]
    validate_generated_assets_thresholds [of "assets_world 1000 500"]
    validate_generated_assets_thresholds [of "assets_world 1000 499"]
    validate_generated_assets_thresholds [of empty_world]
  by (simp add: assets_world_def empty_world_def)

text \<open>
  C6. \<^verbatim>\<open>validate_structure\<close> returns true exactly when every required path exists.
  It changes no file, and when it returns false it has printed every missing path, in the
  order of the list.
\<close>

theorem validate_structure_reports_all:
  "(fst (validate_structure w) \<longleftrightarrow> list_all (path_exists (fs w)) required_files)
   \<and> fs (snd (validate_structure w)) = fs w
   \<and> (\<not> fst (validate_structure w) \<longrightarrow>
        printed w (snd (validate_structure w)) =
          [ValidatingStructure, MissingRequiredFiles] @
          map MissingFile (filter (\<lambda>p. \<not> path_exists (fs w) p) required_files))"
  by (auto simp: validate_structure_def Let_def collect_missing_filter filter_empty_conv
      list_all_iff)

text \<open>
  C6, at a package with two missing files, and at a complete one.
\<close>

theorem validate_structure_reports_all_witness:
  "\<not> fst (validate_structure partial_world) \<and>
   printed partial_world (snd (validate_structure partial_world)) =
     [ValidatingStructure, MissingRequiredFiles, MissingFile ''src/Flexifi.cpp'',
      MissingFile ''README.md''] \<and>
   fst (validate_structure ready_world)"
  using validate_structure_reports_all [of partial_world]
    validate_structure_reports_all [of ready_world]
  by (simp add: partial_world_def ready_world_def ready_files_def required_files_def
      path_exists_def)

text \<open>
  C7, as stated, fails when the command exits with a non-zero status and empty standard
  error: the reason printed is the description of the failed call (the command and its
  exit status), not the captured text.
\<close>

theorem embed_assets_empty_stderr_counterexample:
  "\<not> fst (embed_assets (sample_env (silent_shell 1)) ready_world) \<and>
   printed ready_world (snd (embed_assets (sample_env (silent_shell 1)) ready_world)) =
     [EmbeddingAssets, Running ''Embedding web assets'',
      CommandError ''python3 tools/embed_assets.py'' 1] \<and>
   CommandStderr (str_strip (sample_env (silent_shell 1))
       (stderr (fst (shell (sample_env (silent_shell 1)) ''python3 tools/embed_assets.py''
          (fs ready_world)))))
     \<notin> set (printed ready_world (snd (embed_assets (sample_env (silent_shell 1)) ready_world)))"
  by (simp add: embed_assets_def run_command_def sample_env_def silent_shell_def ready_world_def
      printed_def print_def Let_def)

text \<open>
  C7, amended. \<^verbatim>\<open>embed_assets\<close> (like every \<^verbatim>\<open>run_command\<close>) returns true exactly
  when the command exits with status zero. On a non-zero status it returns false and
  prints as the reason the stripped standard error when that is not empty, and the
  description of the failed call otherwise.
\<close>

theorem embed_assets_exit_status:
  "let cmd = ''python3 tools/embed_assets.py''; r = fst (shell e cmd (fs w))
   in (fst (embed_assets e w) \<longleftrightarrow> returncode r = 0)
      \<and> (returncode r \<noteq> 0 \<longrightarrow>
           printed w (snd (embed_assets e w)) =
             [EmbeddingAssets, Running ''Embedding web assets'',
              if stderr r \<noteq> [] then CommandStderr (str_strip e (stderr r))
              else CommandError cmd (returncode r)])
      \<and> (fst (run_command e c d w) \<longleftrightarrow> returncode (fst (shell e c (fs w))) = 0)"
  by (simp add: embed_assets_def run_command_def Let_def split_beta)

text \<open>
  C7, amended, at a command that succeeds and at one that fails with a message.
\<close>

theorem embed_assets_exit_status_witness:
  "fst (embed_assets (sample_env (silent_shell 0)) ready_world) \<and>
   \<not> fst (embed_assets (sample_env complaining_shell) ready_world) \<and>
   printed ready_world (snd (embed_assets (sample_env complaining_shell) ready_world)) =
     [EmbeddingAssets, Running ''Embedding web assets'', CommandStderr ''no such tool'']"
  using embed_assets_exit_status [of "sample_env (silent_shell 0)" ready_world "''true''" "[]"]
    embed_assets_exit_status [of "sample_env complaining_shell" ready_world "''true''" "[]"]
  by (simp add: sample_env_def silent_shell_def complaining_shell_def ready_world_def Let_def)

text \<open>
  C8. A version is taken from the arguments exactly when the first argument is
  \<^verbatim>\<open>--version\<close> and a second one follows (which is the version). With any other
  arguments the version step changes nothing and the whole run is the run without
  arguments.
\<close>

theorem parse_version_forms:
  "(parse_version argv = Some v \<longleftrightarrow> (\<exists>prog rest. argv = prog # ''--version'' # v # rest))
   \<and> (parse_version argv = None \<longrightarrow>
        update_version e (parse_version argv) w = (True, w) \<and>
        main e argv w = main e [] w)"
proof -
  have "(parse_version argv = Some v) = (\<exists>prog rest. argv = prog # ''--version'' # v # rest)"
  proof (cases argv)
    case Nil
    then show ?thesis by (simp add: parse_version_def)
  next
    case (Cons prog as)
    show ?thesis
    proof (cases as)
      case Nil
      with Cons show ?thesis by (simp add: parse_version_def)
    next
      case (Cons a bs)
      with \<open>argv = prog # as\<close> show ?thesis
        by (cases bs) (auto simp: parse_version_def)
    qed
  qed
  moreover have "parse_version [] = None"
    by (simp add: parse_version_def)
  ultimately show ?thesis
    by (simp add: update_version_def main_def)
qed

text \<open>
  C8, at the flag pair, at the flag without a value and at two other forms.
\<close>

theorem parse_version_forms_witness:
  "parse_version [''prepare_release.py'', ''--version'', ''1.2.0''] = Some ''1.2.0'' \<and>
   parse_version [''prepare_release.py'', ''--version''] = None \<and>
   parse_version [''prepare_release.py'', ''1.2.0''] = None \<and>
   parse_version [''prepare_release.py'', ''-v'', ''1.2.0''] = None \<and>
   main (sample_env (silent_shell 0)) [''prepare_release.py'', ''-v'', ''1.2.0''] ready_world =
     main (sample_env (silent_shell 0)) [] ready_world"
  using parse_version_forms [of "[''prepare_release.py'', ''--version'', ''1.2.0'']" "''1.2.0''"]
    parse_version_forms [of "[''prepare_release.py'', ''--version'']" "''1.2.0''"]
    parse_version_forms [of "[''prepare_release.py'', ''1.2.0'']" "''1.2.0''"]
    parse_version_forms [of "[''prepare_release.py'', ''-v'', ''1.2.0'']" "''1.2.0''"
      "sample_env (silent_shell 0)" ready_world]
  by (simp add: parse_version_def)

text \<open>
  C9. \<^verbatim>\<open>create_release_notes\<close> returns true exactly when \<^verbatim>\<open>RELEASE_NOTES.md\<close>
  exists. It changes no file; when the notes are missing it prints the warning and the
  two lines that ask for them to be written by hand.
\<close>

theorem create_release_notes_checks_only:
  "(fst (create_release_notes w) \<longleftrightarrow> path_exists (fs w) ''RELEASE_NOTES.md'')
   \<and> fs (snd (create_release_notes w)) = fs w
   \<and> (\<not> path_exists (fs w) ''RELEASE_NOTES.md'' \<longrightarrow>
        printed w (snd (create_release_notes w)) =
          [CheckingReleaseNotes, NoReleaseNotes, PleaseCreateNotes, NotesRationale])"
  by (simp add: create_release_notes_def Let_def)

text \<open>
  C9, with and without the notes.
\<close>

theorem create_release_notes_checks_only_witness:
  "fst (create_release_notes ready_world) \<and>
   \<not> fst (create_release_notes empty_world) \<and>
   fs (snd (create_release_notes empty_world)) ''RELEASE_NOTES.md'' = None \<and>
   printed empty_world (snd (create_release_notes empty_world)) =
     [CheckingReleaseNotes, NoReleaseNotes, PleaseCreateNotes, NotesRationale]"
  using create_release_notes_checks_only [of ready_world]
    create_release_notes_checks_only [of empty_world]
  by (simp add: ready_world_def ready_files_def empty_world_def path_exists_def)

text \<open>
  C10. For the version \<^verbatim>\<open>None\<close> and for the empty string, \<^verbatim>\<open>update_version\<close>
  returns true and the world it returns is the world it was given. The arguments
  \<^verbatim>\<open>--version ""\<close> give the empty string as version; the fourth step of that run
  returns true, and the manifest reads as before.
\<close>

theorem update_version_falsy:
  "update_version e None w = (True, w) \<and>
   update_version e (Some '''') w = (True, w) \<and>
   parse_version (prog # ''--version'' # '''' # rest) = Some '''' \<and>
   step_results (steps e (parse_version (prog # ''--version'' # '''' # rest))) w ! 3 \<and>
   read_manifest e (fs (snd (update_version e (parse_version (prog # ''--version'' # '''' # rest)) w)))
     = read_manifest e (fs w)"
  by (simp add: update_version_def parse_version_def steps_def split_beta Let_def)

text \<open>
  C10, at a package with a manifest.
\<close>

theorem update_version_falsy_witness:
  "update_version (sample_env (silent_shell 0))
     (parse_version [''prepare_release.py'', ''--version'', '''']) ready_world = (True, ready_world)"
  using update_version_falsy [of "sample_env (silent_shell 0)" ready_world "''prepare_release.py''" "[]"]
  by simp

end
